theory Spec2Isabelle
  imports Main
begin

section \<open>The broadcast server: processes, sockets and what a process does\<close>

text \<open>
  The program (\<^verbatim>\<open>src/broadcast-server.ts\<close>) is a set of callbacks for the
  events of the \<^verbatim>\<open>ws\<close> transport, of the readline interface and of the signals. The
  event loop runs one callback at a time, to completion. The model is therefore a step
  function per run mode: it takes the state of the process and the event that the loop
  dispatches and returns the state after the callbacks registered for that event have
  run. Everything a callback does to the outside (a console line, a send, a close, an
  exit) is appended to the process's output \<open>out\<close>, oldest first, so that the order
  and the number of the calls can be read off.

  What the runtime and the \<^verbatim>\<open>ws\<close> library do around a callback is written into
  the step where it happens, and said there: the library keeps \<^verbatim>\<open>wss.clients\<close>, it
  moves a socket's \<^verbatim>\<open>readyState\<close>, it keeps the callbacks passed to
  \<^verbatim>\<open>wss.close\<close> until the server has closed, and its \<^verbatim>\<open>send\<close> throws on a socket
  that is not yet open; the runtime ends a process that throws, that is sent a signal
  it has no listener for, or that has nothing left to wait for.
\<close>

subsection \<open>Data\<close>

datatype readyState = CONNECTING | OPEN | CLOSING | CLOSED

text \<open>A socket is known by its identity only.\<close>

type_synonym socket = nat

datatype signal = SIGINT | SIGTERM

text \<open>
  A message, and the reason of a close, arrives as a \<^verbatim>\<open>Buffer\<close> of bytes. A
  \<open>string\<close> is a list of bytes; a text is held as the bytes of its UTF-8 encoding.
\<close>

datatype rawData = Buffer string

text \<open>The arguments of a \<^verbatim>\<open>console.log\<close> or \<^verbatim>\<open>console.error\<close> call.\<close>

datatype arg = Text string | Number int | ErrorObj string

text \<open>An exception that a call throws.\<close>

datatype js_error = JsError string

datatype effect =
    Listen nat                      \<comment> \<open>\<^verbatim>\<open>new WebSocketServer({ port })\<close>\<close>
  | Connect socket string           \<comment> \<open>\<^verbatim>\<open>new WebSocket(address)\<close>\<close>
  | CreateInterface                 \<comment> \<open>\<^verbatim>\<open>readline.createInterface\<close>\<close>
  | ConsoleLog "arg list"
  | ConsoleError "arg list"
  | SocketSend socket string        \<comment> \<open>\<^verbatim>\<open>socket.send(msg)\<close>\<close>
  | SocketClose socket nat string   \<comment> \<open>\<^verbatim>\<open>socket.close(code, reason)\<close>\<close>
  | ServerClose                     \<comment> \<open>\<^verbatim>\<open>wss.close(callback)\<close>\<close>
  | ProcessExit int
  | Uncaught js_error               \<comment> \<open>the runtime reports an exception that nothing caught\<close>

text \<open>The listener of the hub: it is binding its port, it is bound, or it is gone.\<close>

datatype listener = Binding | Bound | Gone

record process =
  out :: "effect list"
  exitCode :: "int option"   \<comment> \<open>\<open>Some c\<close> once the process has ended with code \<open>c\<close>\<close>

record hub = process +
  clients :: "socket list"              \<comment> \<open>\<^verbatim>\<open>wss.clients\<close>, a Set, in insertion order\<close>
  readyStateOf :: "socket \<Rightarrow> readyState"
  registered :: "socket list"           \<comment> \<open>sockets that carry the listeners of lines 56 to 73\<close>
  closeCallbacks :: nat                 \<comment> \<open>callbacks of \<^verbatim>\<open>wss.close\<close> not yet run\<close>
  listening :: listener
  signals :: bool                       \<comment> \<open>\<^verbatim>\<open>closeAllConnections\<close> listens for the signals\<close>

record peer = process +
  ws_readyState :: readyState
  rl :: bool                            \<comment> \<open>the readline interface exists and has its listener\<close>
  peer_signals :: bool                  \<comment> \<open>\<^verbatim>\<open>shutdownClient\<close> listens for the signals\<close>

datatype hub_event =
    Listening
  | Connection socket
  | Message socket rawData
  | Close socket
  | Error socket string
  | ServerError string
  | Signal signal
  | ServerClosed                        \<comment> \<open>the listener has finished closing\<close>
  | ReadyStateChange socket readyState  \<comment> \<open>the transport moves a socket; no callback runs\<close>

datatype peer_event =
    WsOpen
  | Line string
  | WsMessage rawData
  | WsClose nat rawData
  | WsError string
  | PeerSignal signal
  | WsReadyState readyState

datatype proc = HubProc hub | PeerProc peer | Terminated process

subsection \<open>Constants and text\<close>

definition PORT :: nat where
  "PORT = 8080"

text \<open>A number inside a template literal: its decimal digits.\<close>

fun show_nat :: "nat \<Rightarrow> string" where
  "show_nat n =
     (if n < 10 then [char_of (48 + n)]
      else show_nat (n div 10) @ [char_of (48 + n mod 10)])"

declare show_nat.simps [simp del]

definition address :: string where
  "address = ''ws://localhost:'' @ show_nat PORT"

definition usage :: string where
  "usage = ''Usage: broadcast-server <start|connect>''"

text \<open>
  \<^verbatim>\<open>toLowerCase\<close> on the letters A to Z. Every other byte is left as it is: no
  character outside A to Z has one of the letters of \<^verbatim>\<open>start\<close> or
  \<^verbatim>\<open>connect\<close> as its lower case, so the dispatch does not depend on them. The
  text that follows \<^verbatim>\<open>Unknown command:\<close> is as printed for arguments in ASCII.
\<close>

definition lower_char :: "char \<Rightarrow> char" where
  "lower_char c =
     (let n = (of_char c :: nat) in if 65 \<le> n \<and> n \<le> 90 then char_of (n + 32) else c)"

definition toLowerCase :: "string \<Rightarrow> string" where
  "toLowerCase s = map lower_char s"

subsection \<open>\<^verbatim>\<open>toString\<close> of a \<^verbatim>\<open>Buffer\<close>\<close>

text \<open>
  \<^verbatim>\<open>data.toString()\<close> decodes the bytes as UTF-8. The decoder is the one of the
  Encoding Standard: it keeps the number of continuation bytes it still needs and the
  bounds of the next one; a byte that cannot begin or continue a sequence gives the
  replacement character U+FFFD for what was read so far, and a byte that cannot
  continue is then read again as the begin of a sequence. The text is held as its UTF-8
  bytes, so a sequence that decodes is kept as it is, and U+FFFD is EF BF BD.
\<close>

definition byte :: "char \<Rightarrow> nat" where
  "byte c = of_char c"

definition replacement :: string where
  "replacement = [CHR 0xEF, CHR 0xBF, CHR 0xBD]"

text \<open>A byte that is a character by itself, and the bytes that begin a longer sequence.\<close>

definition single :: "char \<Rightarrow> bool" where
  "single b = (byte b \<le> 0x7F)"

definition lead_of_two :: "char \<Rightarrow> bool" where
  "lead_of_two b = (0xC2 \<le> byte b \<and> byte b \<le> 0xDF)"

definition lead_of_three :: "char \<Rightarrow> bool" where
  "lead_of_three b = (0xE0 \<le> byte b \<and> byte b \<le> 0xEF)"

definition lead_of_four :: "char \<Rightarrow> bool" where
  "lead_of_four b = (0xF0 \<le> byte b \<and> byte b \<le> 0xF4)"

fun utf8_decoder :: "nat \<Rightarrow> nat \<Rightarrow> nat \<Rightarrow> string \<Rightarrow> string \<Rightarrow> string" where
  "utf8_decoder needed lower upper seen [] = (if needed = 0 then [] else replacement)"
| "utf8_decoder needed lower upper seen (b # bs) =
     (if needed = 0 then
        (if single b then b # utf8_decoder 0 0x80 0xBF [] bs
         else if lead_of_two b then utf8_decoder 1 0x80 0xBF [b] bs
         else if lead_of_three b then
           utf8_decoder 2 (if byte b = 0xE0 then 0xA0 else 0x80)
             (if byte b = 0xED then 0x9F else 0xBF) [b] bs
         else if lead_of_four b then
           utf8_decoder 3 (if byte b = 0xF0 then 0x90 else 0x80)
             (if byte b = 0xF4 then 0x8F else 0xBF) [b] bs
         else replacement @ utf8_decoder 0 0x80 0xBF [] bs)
      else if byte b < lower \<or> upper < byte b then
        replacement @ utf8_decoder 0 0x80 0xBF [] (b # bs)
      else if needed = 1 then seen @ b # utf8_decoder 0 0x80 0xBF [] bs
      else utf8_decoder (needed - 1) 0x80 0xBF (seen @ [b]) bs)"

declare utf8_decoder.simps [simp del]

fun toString :: "rawData \<Rightarrow> string" where
  "toString (Buffer bytes) = utf8_decoder 0 0x80 0xBF [] bytes"

text \<open>
  Well-formed UTF-8, by the table of the Unicode Standard (Table 3-7): the bytes of a
  text. Every text message is well-formed, and so is every line the peer reads.
\<close>

definition continuation :: "char \<Rightarrow> bool" where
  "continuation c = (0x80 \<le> byte c \<and> byte c \<le> 0xBF)"

definition second_of_three :: "char \<Rightarrow> char \<Rightarrow> bool" where
  "second_of_three b c =
     ((if byte b = 0xE0 then 0xA0 else 0x80) \<le> byte c
      \<and> byte c \<le> (if byte b = 0xED then 0x9F else 0xBF))"

definition second_of_four :: "char \<Rightarrow> char \<Rightarrow> bool" where
  "second_of_four b c =
     ((if byte b = 0xF0 then 0x90 else 0x80) \<le> byte c
      \<and> byte c \<le> (if byte b = 0xF4 then 0x8F else 0xBF))"

fun well_formed_utf8 :: "string \<Rightarrow> bool" where
  "well_formed_utf8 [] = True"
| "well_formed_utf8 (b # bs) =
     (if single b then well_formed_utf8 bs
      else if lead_of_two b then
        (case bs of
           c1 # r \<Rightarrow> continuation c1 \<and> well_formed_utf8 r
         | _ \<Rightarrow> False)
      else if lead_of_three b then
        (case bs of
           c1 # c2 # r \<Rightarrow> second_of_three b c1 \<and> continuation c2 \<and> well_formed_utf8 r
         | _ \<Rightarrow> False)
      else if lead_of_four b then
        (case bs of
           c1 # c2 # c3 # r \<Rightarrow>
             second_of_four b c1 \<and> continuation c2 \<and> continuation c3 \<and> well_formed_utf8 r
         | _ \<Rightarrow> False)
      else False)"

subsection \<open>What a callback can do\<close>

definition emit :: "effect \<Rightarrow> 'a process_scheme \<Rightarrow> 'a process_scheme" where
  "emit e p = p\<lparr>out := out p @ [e]\<rparr>"

definition console_log :: "arg list \<Rightarrow> 'a process_scheme \<Rightarrow> 'a process_scheme" where
  "console_log args = emit (ConsoleLog args)"

definition console_error :: "arg list \<Rightarrow> 'a process_scheme \<Rightarrow> 'a process_scheme" where
  "console_error args = emit (ConsoleError args)"

text \<open>
  \<^verbatim>\<open>process.exit\<close> ends the process: nothing runs after it. The steps below check
  \<open>exitCode\<close> before they run a callback.
\<close>

definition process_exit :: "int \<Rightarrow> 'a process_scheme \<Rightarrow> 'a process_scheme" where
  "process_exit code p = (emit (ProcessExit code) p)\<lparr>exitCode := Some code\<rparr>"

text \<open>
  An exception that leaves a callback, or the start-up, is caught by nothing in this
  program: the runtime reports it and ends the process with code 1. What was done
  before the throw has happened, so a throw carries the state it was thrown in.
\<close>

definition uncaught :: "js_error \<Rightarrow> 'a process_scheme \<Rightarrow> 'a process_scheme" where
  "uncaught e p = (emit (Uncaught e) p)\<lparr>exitCode := Some 1\<rparr>"

text \<open>
  \<^verbatim>\<open>process\<close> is the namespace object of the import of line 3
  (\<^verbatim>\<open>import * as process from 'process'\<close>). It has the module's own properties,
  among them \<^verbatim>\<open>argv\<close>, \<^verbatim>\<open>exit\<close> and \<^verbatim>\<open>stdin\<close>; \<^verbatim>\<open>on\<close> is inherited from a
  prototype and is not among them. So \<^verbatim>\<open>process.on\<close> is undefined and the call
  throws: no listener is installed.
\<close>

definition process_on ::
  "string \<Rightarrow> 'a process_scheme \<Rightarrow> (js_error \<times> 'a process_scheme) + 'a process_scheme" where
  "process_on event p = Inl (JsError ''TypeError: process.on is not a function'', p)"

text \<open>
  A signal that has no listener ends the process; its exit code is 128 plus the number
  of the signal.
\<close>

fun signal_number :: "signal \<Rightarrow> int" where
  "signal_number SIGINT = 2"
| "signal_number SIGTERM = 15"

definition killed :: "signal \<Rightarrow> 'a process_scheme \<Rightarrow> 'a process_scheme" where
  "killed sig p = p\<lparr>exitCode := Some (128 + signal_number sig)\<rparr>"

text \<open>
  \<^verbatim>\<open>send\<close> of the transport, by the state \<open>st\<close> of the socket. On a socket that
  is still connecting it throws. On an open socket it hands the message to the transport
  and returns: the transport buffers what it cannot write at once, and a write that
  fails is reported later, by the \<^verbatim>\<open>error\<close> and \<^verbatim>\<open>close\<close> events of that socket.
  On a socket that is closing or closed the message is dropped.
\<close>

definition socket_send ::
  "socket \<Rightarrow> readyState \<Rightarrow> string \<Rightarrow> 'a process_scheme
     \<Rightarrow> (js_error \<times> 'a process_scheme) + 'a process_scheme" where
  "socket_send c st msg p =
     (case st of
        CONNECTING \<Rightarrow> Inl (JsError ''WebSocket is not open: readyState 0 (CONNECTING)'', p)
      | OPEN \<Rightarrow> Inr (emit (SocketSend c msg) p)
      | CLOSING \<Rightarrow> Inr p
      | CLOSED \<Rightarrow> Inr p)"

text \<open>
  \<^verbatim>\<open>close\<close> on an open socket starts the close handshake and moves the socket to
  CLOSING at once. The program calls it on open sockets only, with the codes 1001 and
  1000 and a short reason, with which it does not throw.
\<close>

definition client_close :: "socket \<Rightarrow> nat \<Rightarrow> string \<Rightarrow> hub \<Rightarrow> hub" where
  "client_close c code reason s =
     (emit (SocketClose c code reason) s)\<lparr>readyStateOf := (readyStateOf s)(c := CLOSING)\<rparr>"

text \<open>The peer's one socket.\<close>

definition ws :: socket where
  "ws = 0"

definition ws_close :: "nat \<Rightarrow> string \<Rightarrow> peer \<Rightarrow> peer" where
  "ws_close code reason s = (emit (SocketClose ws code reason) s)\<lparr>ws_readyState := CLOSING\<rparr>"

text \<open>\<^verbatim>\<open>wss.close(callback)\<close>: the callback waits for the server's close.\<close>

definition wss_close :: "hub \<Rightarrow> hub" where
  "wss_close s = (emit ServerClose s)\<lparr>closeCallbacks := Suc (closeCallbacks s)\<rparr>"

text \<open>
  \<^verbatim>\<open>forEach\<close> over a Set visits the members in insertion order. A throw of the
  callback ends the loop and leaves it: the members after it are not visited.
\<close>

fun forEach :: "'a list \<Rightarrow> ('a \<Rightarrow> 's \<Rightarrow> (js_error \<times> 's) + 's) \<Rightarrow> 's \<Rightarrow> (js_error \<times> 's) + 's" where
  "forEach [] f s = Inr s"
| "forEach (x # xs) f s = (case f x s of Inl thrown \<Rightarrow> Inl thrown | Inr t \<Rightarrow> forEach xs f t)"

definition set_add :: "socket \<Rightarrow> socket list \<Rightarrow> socket list" where
  "set_add c cs = (if c \<in> set cs then cs else cs @ [c])"

definition set_delete :: "socket \<Rightarrow> socket list \<Rightarrow> socket list" where
  "set_delete c cs = removeAll c cs"

subsection \<open>The hub\<close>

text \<open>Lines 11 to 23; the callback of line 19 is \<open>onServerClosed\<close>.\<close>

definition closeAllConnections :: "hub \<Rightarrow> (js_error \<times> hub) + hub" where
  "closeAllConnections s =
     (case forEach (clients s)
             (\<lambda>client t.
                if readyStateOf t client = OPEN
                then Inr (client_close client 1001 ''Server shutting down'' t)
                else Inr t)
             (console_log [Text (CHR 0x0A # ''Shutting down server...'')] s)
      of Inl thrown \<Rightarrow> Inl thrown
       | Inr t \<Rightarrow> Inr (wss_close t))"

definition onServerClosed :: "hub \<Rightarrow> hub" where
  "onServerClosed s = process_exit 0 (console_log [Text ''Server has closed.''] s)"

text \<open>Lines 10 to 27: the first \<^verbatim>\<open>process.on\<close>, of line 25, throws.\<close>

definition setupGracefulShutdownServer :: "hub \<Rightarrow> (js_error \<times> hub) + hub" where
  "setupGracefulShutdownServer s =
     (case process_on ''SIGINT'' s of
        Inl thrown \<Rightarrow> Inl thrown
      | Inr t \<Rightarrow> process_on ''SIGTERM'' t)"

text \<open>
  The server's close runs the waiting callbacks in turn. The first one exits the
  process, so a second one never runs.
\<close>

fun run_callbacks :: "nat \<Rightarrow> hub \<Rightarrow> hub" where
  "run_callbacks 0 s = s"
| "run_callbacks (Suc n) s =
     (if exitCode s = None then run_callbacks n (onServerClosed s) else s)"

text \<open>Lines 56 to 65.\<close>

definition onMessage :: "rawData \<Rightarrow> hub \<Rightarrow> (js_error \<times> hub) + hub" where
  "onMessage data s =
     (let msg = toString data in
      forEach (clients s)
        (\<lambda>client t.
           if readyStateOf t client = OPEN
           then socket_send client (readyStateOf t client) msg t
           else Inr t)
        (console_log [Text (''Received: '' @ msg)] s))"

text \<open>
  Lines 52 to 54: by the time the callback runs the library has put the new socket,
  which is open, into \<^verbatim>\<open>wss.clients\<close>. Each socket is announced once.
\<close>

definition onConnection :: "socket \<Rightarrow> hub \<Rightarrow> hub" where
  "onConnection c s =
     (let t = s\<lparr>clients := set_add c (clients s),
                readyStateOf := (readyStateOf s)(c := OPEN)\<rparr>;
          u = console_log [Text ''New client connected. Total clients:'',
                           Number (int (length (clients t)))] t
      in u\<lparr>registered := set_add c (registered u)\<rparr>)"

text \<open>
  Lines 67 to 69: the library's own listener for the socket's close, registered before
  the program's, has taken the socket out of \<^verbatim>\<open>wss.clients\<close> already.
\<close>

definition onClose :: "socket \<Rightarrow> hub \<Rightarrow> hub" where
  "onClose c s =
     (let t = s\<lparr>clients := set_delete c (clients s),
                readyStateOf := (readyStateOf s)(c := CLOSED)\<rparr>
      in console_log [Text ''Client disconnected. Total clients:'',
                      Number (int (length (clients t)) - 1)] t)"

text \<open>
  Lines 76 to 78. The server reports an error when its listener cannot bind: the
  listener is gone by the time the callback runs.
\<close>

definition onServerError :: "string \<Rightarrow> hub \<Rightarrow> hub" where
  "onServerError err s =
     console_error [Text ''Server error:'', ErrorObj err]
       (s\<lparr>listening := (if listening s = Binding then Gone else listening s)\<rparr>)"

text \<open>
  The callbacks that an event runs. A signal runs \<^verbatim>\<open>closeAllConnections\<close> where
  that listener is installed, and ends the process where it is not.
\<close>

fun hub_callbacks :: "hub_event \<Rightarrow> hub \<Rightarrow> (js_error \<times> hub) + hub" where
  "hub_callbacks Listening s =
     Inr (console_log [Text (''Broadcast server started, listening on ws://localhost:''
                             @ show_nat PORT)] (s\<lparr>listening := Bound\<rparr>))"
| "hub_callbacks (Connection c) s =
     Inr (if c \<in> set (registered s) then s else onConnection c s)"
| "hub_callbacks (Message c data) s =
     (if c \<in> set (registered s) then onMessage data s else Inr s)"
| "hub_callbacks (Close c) s = Inr (if c \<in> set (registered s) then onClose c s else s)"
| "hub_callbacks (Error c err) s =
     Inr (if c \<in> set (registered s)
          then console_error [Text ''WebSocket error:'', ErrorObj err] s else s)"
| "hub_callbacks (ServerError err) s = Inr (onServerError err s)"
| "hub_callbacks (Signal sig) s =
     (if signals s then closeAllConnections s else Inr (killed sig s))"
| "hub_callbacks ServerClosed s =
     Inr (run_callbacks (closeCallbacks s) (s\<lparr>closeCallbacks := 0, listening := Gone\<rparr>))"
| "hub_callbacks (ReadyStateChange c st) s =
     Inr (s\<lparr>readyStateOf := (readyStateOf s)(c := st)\<rparr>)"

text \<open>
  The hub has nothing left to wait for when its listener is gone and no socket is
  connected: the process then ends by itself, with code 0.
\<close>

definition loop_empty :: "hub \<Rightarrow> bool" where
  "loop_empty s = (listening s = Gone \<and> clients s = [])"

definition end_of_turn :: "hub \<Rightarrow> hub" where
  "end_of_turn s = (if exitCode s = None \<and> loop_empty s then s\<lparr>exitCode := Some 0\<rparr> else s)"

text \<open>One turn of the event loop. A process that has ended handles nothing.\<close>

definition hub_step :: "hub \<Rightarrow> hub_event \<Rightarrow> hub" where
  "hub_step s ev =
     (if exitCode s = None
      then (case hub_callbacks ev s of Inl (e, t) \<Rightarrow> uncaught e t | Inr t \<Rightarrow> end_of_turn t)
      else s)"

definition hub_run :: "hub \<Rightarrow> hub_event list \<Rightarrow> hub" where
  "hub_run s evs = foldl hub_step s evs"

text \<open>
  Lines 45 to 81: the state in which \<^verbatim>\<open>startServer\<close> leaves the process. The
  server is created and the listeners of lines 48 to 78 are registered; then line 80
  calls \<^verbatim>\<open>setupGracefulShutdownServer\<close>, which throws, and nothing catches it.
\<close>

definition startServer :: hub where
  "startServer =
     (case setupGracefulShutdownServer
             \<lparr>out = [Listen PORT], exitCode = None, clients = [],
              readyStateOf = (\<lambda>c. CONNECTING), registered = [], closeCallbacks = 0,
              listening = Binding, signals = False\<rparr>
      of Inl (e, t) \<Rightarrow> uncaught e t
       | Inr t \<Rightarrow> t)"

subsection \<open>The peer\<close>

text \<open>Lines 30 to 36.\<close>

definition shutdownClient :: "peer \<Rightarrow> peer" where
  "shutdownClient s =
     (let t = console_log [Text (CHR 0x0A # ''Disconnecting client...'')] s;
          u = (if ws_readyState t = OPEN then ws_close 1000 ''Client exit'' t else t)
      in process_exit 0 u)"

text \<open>Lines 29 to 40: the first \<^verbatim>\<open>process.on\<close>, of line 38, throws.\<close>

definition setupGracefulShutdownClient :: "peer \<Rightarrow> (js_error \<times> peer) + peer" where
  "setupGracefulShutdownClient s =
     (case process_on ''SIGINT'' s of
        Inl thrown \<Rightarrow> Inl thrown
      | Inr t \<Rightarrow> process_on ''SIGTERM'' t)"

text \<open>Lines 99 to 105.\<close>

definition onLine :: "string \<Rightarrow> peer \<Rightarrow> (js_error \<times> peer) + peer" where
  "onLine line s =
     (if ws_readyState s = OPEN then socket_send ws (ws_readyState s) line s
      else Inr (console_log [Text ''Connection is not open. Unable to send message.''] s))"

text \<open>Lines 90 to 106. The socket is open when the callback runs, and it opens once.\<close>

definition onOpen :: "peer \<Rightarrow> peer" where
  "onOpen s =
     (let t = console_log
                [Text (''Connected to server at '' @ address
                       @ ''. Type messages and hit Enter to send.'')]
                (s\<lparr>ws_readyState := OPEN\<rparr>)
      in (emit CreateInterface t)\<lparr>rl := True\<rparr>)"

fun peer_callbacks :: "peer_event \<Rightarrow> peer \<Rightarrow> (js_error \<times> peer) + peer" where
  "peer_callbacks WsOpen s = Inr (if ws_readyState s = CONNECTING then onOpen s else s)"
| "peer_callbacks (Line line) s = (if rl s then onLine line s else Inr s)"
| "peer_callbacks (WsMessage data) s = Inr (console_log [Text (''> '' @ toString data)] s)"
| "peer_callbacks (WsClose code reason) s =
     Inr (process_exit 0
            (console_log
               [Text (''Disconnected from server (code: '' @ show_nat code
                      @ '', reason: '' @ toString reason @ '')'')]
               (s\<lparr>ws_readyState := CLOSED\<rparr>)))"
| "peer_callbacks (WsError err) s =
     Inr (console_error [Text ''WebSocket error:'', ErrorObj err] s)"
| "peer_callbacks (PeerSignal sig) s =
     Inr (if peer_signals s then shutdownClient s else killed sig s)"
| "peer_callbacks (WsReadyState st) s = Inr (s\<lparr>ws_readyState := st\<rparr>)"

definition peer_step :: "peer \<Rightarrow> peer_event \<Rightarrow> peer" where
  "peer_step s ev =
     (if exitCode s = None
      then (case peer_callbacks ev s of Inl (e, t) \<Rightarrow> uncaught e t | Inr t \<Rightarrow> t)
      else s)"

definition peer_run :: "peer \<Rightarrow> peer_event list \<Rightarrow> peer" where
  "peer_run s evs = foldl peer_step s evs"

text \<open>
  Lines 86 to 123: the state in which \<^verbatim>\<open>startClient\<close> leaves the process. The
  socket is created and its listeners are registered; then line 122 calls
  \<^verbatim>\<open>setupGracefulShutdownClient\<close>, which throws, and nothing catches it.
\<close>

definition startClient :: peer where
  "startClient =
     (case setupGracefulShutdownClient
             \<lparr>out = [Connect ws address], exitCode = None,
              ws_readyState = CONNECTING, rl = False, peer_signals = False\<rparr>
      of Inl (e, t) \<Rightarrow> uncaught e t
       | Inr t \<Rightarrow> t)"

subsection \<open>The entry point\<close>

text \<open>Lines 128 to 144; \<open>argv\<close> is \<^verbatim>\<open>process.argv.slice(2)\<close>.\<close>

definition start_process :: process where
  "start_process = \<lparr>out = [], exitCode = None\<rparr>"

definition main :: "string list \<Rightarrow> proc" where
  "main argv =
     (if length argv = 0
      then Terminated (process_exit 1 (console_error [Text usage] start_process))
      else
        let command = toLowerCase (argv ! 0) in
        if command = ''start'' then HubProc startServer
        else if command = ''connect'' then PeerProc startClient
        else Terminated
               (process_exit 1
                  (console_error [Text usage]
                     (console_error [Text (''Unknown command: '' @ command)] start_process))))"

subsection \<open>Reading the output\<close>

text \<open>What the process did after it was in state \<open>s\<close>, up to state \<open>t\<close>.\<close>

definition since :: "'a process_scheme \<Rightarrow> 'b process_scheme \<Rightarrow> effect list" where
  "since s t = drop (length (out s)) (out t)"

text \<open>
  Whether a callback returned, and the state in which it ended, by return or by throw.
\<close>

definition returned :: "(js_error \<times> 's) + 's \<Rightarrow> bool" where
  "returned r = (case r of Inl thrown \<Rightarrow> False | Inr t \<Rightarrow> True)"

definition ended :: "(js_error \<times> 's) + 's \<Rightarrow> 's" where
  "ended r = (case r of Inl (e, t) \<Rightarrow> t | Inr t \<Rightarrow> t)"

text \<open>The messages sent to one socket, in order.\<close>

fun sent_to :: "socket \<Rightarrow> effect list \<Rightarrow> string list" where
  "sent_to c [] = []"
| "sent_to c (SocketSend d msg # es) = (if d = c then msg # sent_to c es else sent_to c es)"
| "sent_to c (e # es) = sent_to c es"

subsection \<open>Notions used in the statements\<close>

text \<open>
  The close requests of lines 14 to 18: one for every member of \<^verbatim>\<open>wss.clients\<close>
  that is open, in the order of the Set, with code 1001 and its reason.
\<close>

definition closes :: "hub \<Rightarrow> effect list" where
  "closes s = map (\<lambda>c. SocketClose c 1001 ''Server shutting down'')
                  (filter (\<lambda>c. readyStateOf s c = OPEN) (clients s))"

text \<open>The first console line of each close sequence (lines 12 and 31).\<close>

definition shutting_down :: effect where
  "shutting_down = ConsoleLog [Text (CHR 0x0A # ''Shutting down server...'')]"

definition disconnecting :: effect where
  "disconnecting = ConsoleLog [Text (CHR 0x0A # ''Disconnecting client...'')]"

text \<open>What the runtime reports when \<^verbatim>\<open>process.on\<close> is called.\<close>

definition not_a_function :: effect where
  "not_a_function = Uncaught (JsError ''TypeError: process.on is not a function'')"

text \<open>
  A capitalization variant of a word: the same letters, each in lower or in upper case.
\<close>

definition upper_char :: "char \<Rightarrow> char" where
  "upper_char c =
     (let n = (of_char c :: nat) in if 97 \<le> n \<and> n \<le> 122 then char_of (n - 32) else c)"

definition capitalization_variant :: "string \<Rightarrow> string \<Rightarrow> bool" where
  "capitalization_variant a w = list_all2 (\<lambda>x y. x = y \<or> x = upper_char y) a w"

definition lower_word :: "string \<Rightarrow> bool" where
  "lower_word w = list_all (\<lambda>y. 97 \<le> (of_char y :: nat) \<and> (of_char y :: nat) \<le> 122) w"

text \<open>
  The variables of the hub's callbacks, for a given \<^verbatim>\<open>wss.clients\<close> and given
  states of the sockets, with the listener bound; and those of the peer's callbacks
  once the socket has opened. The callbacks are functions of these variables.
\<close>

definition hub_with :: "socket list \<Rightarrow> (socket \<Rightarrow> readyState) \<Rightarrow> hub" where
  "hub_with cs st =
     \<lparr>out = [], exitCode = None, clients = cs, readyStateOf = st,
      registered = cs, closeCallbacks = 0, listening = Bound, signals = False\<rparr>"

definition peer_with :: "readyState \<Rightarrow> peer" where
  "peer_with st =
     \<lparr>out = [], exitCode = None, ws_readyState = st, rl = True, peer_signals = False\<rparr>"

text \<open>
  Such states: a hub with the one open member 1, a hub with the open member 1 and the
  closing member 2, a hub whose listener is still binding, a peer with an open socket
  and a peer whose socket is still connecting.
\<close>

definition one_open :: hub where
  "one_open = hub_with [1] (\<lambda>c. OPEN)"

definition one_open_one_closing :: hub where
  "one_open_one_closing = hub_with [1, 2] (\<lambda>c. if c = 2 then CLOSING else OPEN)"

definition binding_hub :: hub where
  "binding_hub = (hub_with [] (\<lambda>c. CONNECTING))\<lparr>listening := Binding\<rparr>"

definition open_peer :: peer where
  "open_peer = peer_with OPEN"

definition connecting_peer :: peer where
  "connecting_peer = peer_with CONNECTING"

text \<open>The sends of lines 60 to 64: one to every member that is open, in the order of the Set.\<close>

definition broadcast :: "hub \<Rightarrow> string \<Rightarrow> effect list" where
  "broadcast s msg = map (\<lambda>m. SocketSend m msg)
                         (filter (\<lambda>m. readyStateOf s m = OPEN) (clients s))"


section \<open>Properties\<close>

subsection \<open>The output and the fields of a process\<close>

lemma out_emit [simp]: "out (emit e p) = out p @ [e]"
  by (simp add: emit_def)

lemma exitCode_emit [simp]: "exitCode (emit e p) = exitCode p"
  by (simp add: emit_def)

lemma hub_fields_emit [simp]:
  "clients (emit e s) = clients s"
  "readyStateOf (emit e s) = readyStateOf s"
  "registered (emit e s) = registered s"
  "closeCallbacks (emit e s) = closeCallbacks s"
  "listening (emit e s) = listening s"
  "signals (emit e s) = signals s"
  by (simp_all add: emit_def)

lemma peer_fields_emit [simp]:
  "ws_readyState (emit e p) = ws_readyState p"
  "rl (emit e p) = rl p"
  "peer_signals (emit e p) = peer_signals p"
  by (simp_all add: emit_def)

lemma uncaught_fields [simp]:
  "out (uncaught e p) = out p @ [Uncaught e]"
  "exitCode (uncaught e p) = Some 1"
  by (simp_all add: uncaught_def)

lemma since_append [simp]: "out t = out s @ es \<Longrightarrow> since s t = es"
  by (simp add: since_def)

lemma since_self [simp]: "since s s = []"
  by (simp add: since_def)

text \<open>A loop whose callback never throws never throws, and keeps what each call keeps.\<close>

lemma forEach_preserves:
  assumes "\<And>x t. P t \<Longrightarrow> \<exists>u. f x t = Inr u \<and> P u" and "P s"
  shows "\<exists>u. forEach xs f s = Inr u \<and> P u"
  using assms(2)
proof (induction xs arbitrary: s)
  case Nil
  then show ?case by simp
next
  case (Cons x xs)
  from assms(1) [OF Cons.prems] obtain u where u: "f x s = Inr u" "P u"
    by blast
  from Cons.IH [OF u(2)] show ?case
    by (simp add: u(1))
qed

subsection \<open>The decoder\<close>

lemma decoder_start:
  "utf8_decoder 0 lower upper seen (b # bs) =
     (if single b then b # utf8_decoder 0 0x80 0xBF [] bs
      else if lead_of_two b then utf8_decoder 1 0x80 0xBF [b] bs
      else if lead_of_three b then
        utf8_decoder 2 (if byte b = 0xE0 then 0xA0 else 0x80)
          (if byte b = 0xED then 0x9F else 0xBF) [b] bs
      else if lead_of_four b then
        utf8_decoder 3 (if byte b = 0xF0 then 0x90 else 0x80)
          (if byte b = 0xF4 then 0x8F else 0xBF) [b] bs
      else replacement @ utf8_decoder 0 0x80 0xBF [] bs)"
  by (subst utf8_decoder.simps) simp

lemma decoder_continue:
  assumes "0 < needed" and "lower \<le> byte b" and "byte b \<le> upper"
  shows "utf8_decoder needed lower upper seen (b # bs) =
     (if needed = 1 then seen @ b # utf8_decoder 0 0x80 0xBF [] bs
      else utf8_decoder (needed - 1) 0x80 0xBF (seen @ [b]) bs)"
  using assms by (subst utf8_decoder.simps) simp

lemma decoder_end:
  "utf8_decoder needed lower upper seen [] = (if needed = 0 then [] else replacement)"
  by (subst utf8_decoder.simps) simp

lemma one_byte:
  "single b \<Longrightarrow> utf8_decoder 0 0x80 0xBF [] (b # bs) = b # utf8_decoder 0 0x80 0xBF [] bs"
  by (simp add: decoder_start)

lemma two_bytes:
  assumes "\<not> single b" "lead_of_two b" "continuation c1"
  shows "utf8_decoder 0 0x80 0xBF [] (b # c1 # r) = b # c1 # utf8_decoder 0 0x80 0xBF [] r"
  using assms by (simp add: decoder_start decoder_continue continuation_def)

lemma three_bytes:
  assumes "\<not> single b" "\<not> lead_of_two b" "lead_of_three b" "second_of_three b c1"
    "continuation c2"
  shows "utf8_decoder 0 0x80 0xBF [] (b # c1 # c2 # r) = b # c1 # c2 # utf8_decoder 0 0x80 0xBF [] r"
proof -
  have "utf8_decoder 0 0x80 0xBF [] (b # c1 # c2 # r)
      = utf8_decoder 2 (if byte b = 0xE0 then 0xA0 else 0x80)
          (if byte b = 0xED then 0x9F else 0xBF) [b] (c1 # c2 # r)"
    using assms(1,2,3) by (simp add: decoder_start)
  also have "\<dots> = utf8_decoder 1 0x80 0xBF [b, c1] (c2 # r)"
    using assms(4) by (subst decoder_continue) (simp_all add: second_of_three_def)
  also have "\<dots> = b # c1 # c2 # utf8_decoder 0 0x80 0xBF [] r"
    using assms(5) by (subst decoder_continue) (simp_all add: continuation_def)
  finally show ?thesis .
qed

lemma four_bytes:
  assumes "\<not> single b" "\<not> lead_of_two b" "\<not> lead_of_three b" "lead_of_four b"
    "second_of_four b c1" "continuation c2" "continuation c3"
  shows "utf8_decoder 0 0x80 0xBF [] (b # c1 # c2 # c3 # r)
           = b # c1 # c2 # c3 # utf8_decoder 0 0x80 0xBF [] r"
proof -
  have "utf8_decoder 0 0x80 0xBF [] (b # c1 # c2 # c3 # r)
      = utf8_decoder 3 (if byte b = 0xF0 then 0x90 else 0x80)
          (if byte b = 0xF4 then 0x8F else 0xBF) [b] (c1 # c2 # c3 # r)"
    using assms(1,2,3,4) by (simp add: decoder_start)
  also have "\<dots> = utf8_decoder 2 0x80 0xBF [b, c1] (c2 # c3 # r)"
    using assms(5) by (subst decoder_continue) (simp_all add: second_of_four_def)
  also have "\<dots> = utf8_decoder 1 0x80 0xBF [b, c1, c2] (c3 # r)"
    using assms(6) by (subst decoder_continue) (simp_all add: continuation_def)
  also have "\<dots> = b # c1 # c2 # c3 # utf8_decoder 0 0x80 0xBF [] r"
    using assms(7) by (subst decoder_continue) (simp_all add: continuation_def)
  finally show ?thesis .
qed

text \<open>A text comes back from the decoder as it went in.\<close>

lemma decoder_keeps_well_formed:
  "well_formed_utf8 bs \<Longrightarrow> utf8_decoder 0 0x80 0xBF [] bs = bs"
proof (induction bs rule: well_formed_utf8.induct)
  case 1
  show ?case by (simp add: decoder_end)
next
  case (2 b bs)
  show ?case
  proof (cases "single b")
    case True
    with 2 show ?thesis by (simp add: one_byte)
  next
    case one: False
    show ?thesis
    proof (cases "lead_of_two b")
      case True
      with one 2 show ?thesis
        by (auto simp: two_bytes split: list.splits)
    next
      case two: False
      show ?thesis
      proof (cases "lead_of_three b")
        case True
        with one two 2 show ?thesis
          by (auto simp: three_bytes split: list.splits)
      next
        case three: False
        show ?thesis
        proof (cases "lead_of_four b")
          case True
          with one two three 2 show ?thesis
            by (auto simp: four_bytes split: list.splits)
        next
          case False
          with one two three "2.prems" show ?thesis
            by simp
        qed
      qed
    qed
  qed
qed

lemma toString_well_formed: "well_formed_utf8 bs \<Longrightarrow> toString (Buffer bs) = bs"
  by (simp add: decoder_keeps_well_formed)

lemma toString_ff_fe:
  "toString (Buffer [CHR 0xFF, CHR 0xFE])
     = [CHR 0xEF, CHR 0xBF, CHR 0xBD, CHR 0xEF, CHR 0xBF, CHR 0xBD]"
  by (simp add: decoder_start decoder_end single_def lead_of_two_def lead_of_three_def
        lead_of_four_def byte_def replacement_def)

subsection \<open>The start-up\<close>

lemma startServer_ended:
  "out startServer = [Listen PORT, not_a_function]"
  "exitCode startServer = Some 1"
  by (simp_all add: startServer_def setupGracefulShutdownServer_def process_on_def
        not_a_function_def)

lemma startClient_ended:
  "out startClient = [Connect ws address, not_a_function]"
  "exitCode startClient = Some 1"
  by (simp_all add: startClient_def setupGracefulShutdownClient_def process_on_def
        not_a_function_def)

text \<open>A process that has ended handles no event.\<close>

lemma hub_run_ended: "exitCode s = Some c \<Longrightarrow> hub_run s evs = s"
  unfolding hub_run_def by (induction evs) (simp_all add: hub_step_def)

lemma peer_run_ended: "exitCode s = Some c \<Longrightarrow> peer_run s evs = s"
  unfolding peer_run_def by (induction evs) (simp_all add: peer_step_def)

subsection \<open>The broadcast loop\<close>

lemma broadcast_loop:
  "forEach cs (\<lambda>client t. if readyStateOf t client = OPEN
                           then socket_send client (readyStateOf t client) msg t else Inr t) s
   = Inr (s\<lparr>out := out s @ map (\<lambda>c. SocketSend c msg)
                                 (filter (\<lambda>c. readyStateOf s c = OPEN) cs)\<rparr>)"
proof (induction cs arbitrary: s)
  case Nil
  show ?case by simp
next
  case (Cons c cs)
  show ?case by (simp add: Cons.IH socket_send_def emit_def)
qed

lemma onMessage_eq:
  "onMessage data s =
     Inr (s\<lparr>out := out s @ ConsoleLog [Text (''Received: '' @ toString data)]
                      # broadcast s (toString data)\<rparr>)"
  by (simp add: onMessage_def Let_def broadcast_loop console_log_def emit_def broadcast_def
        del: toString.simps)

lemma sent_to_map_send:
  "sent_to m (map (\<lambda>c. SocketSend c msg) cs) = replicate (count_list cs m) msg"
  by (induction cs) auto

lemma count_list_distinct:
  "distinct cs \<Longrightarrow> count_list cs m = (if m \<in> set cs then 1 else 0)"
  by (induction cs) auto

lemma sent_to_broadcast:
  assumes "distinct (clients s)"
  shows "sent_to m (broadcast s msg)
           = (if m \<in> set (clients s) \<and> readyStateOf s m = OPEN then [msg] else [])"
proof -
  have "distinct (filter (\<lambda>m. readyStateOf s m = OPEN) (clients s))"
    using assms by simp
  then show ?thesis
    by (simp add: broadcast_def sent_to_map_send count_list_distinct)
qed

subsection \<open>The close sequence of the hub\<close>

lemma close_loop:
  "distinct cs \<Longrightarrow>
   forEach cs (\<lambda>client t. if readyStateOf t client = OPEN
                           then Inr (client_close client code reason t) else Inr t) s
   = Inr (s\<lparr>out := out s @ map (\<lambda>c. SocketClose c code reason)
                                (filter (\<lambda>c. readyStateOf s c = OPEN) cs),
             readyStateOf := (\<lambda>c. if c \<in> set cs \<and> readyStateOf s c = OPEN then CLOSING
                                   else readyStateOf s c)\<rparr>)"
proof (induction cs arbitrary: s)
  case Nil
  show ?case by simp
next
  case (Cons x xs)
  then have fresh: "x \<notin> set xs" and dist: "distinct xs"
    by simp_all
  show ?case
  proof (cases "readyStateOf s x = OPEN")
    case True
    let ?t = "client_close x code reason s"
    have same: "filter (\<lambda>c. readyStateOf ?t c = OPEN) xs = filter (\<lambda>c. readyStateOf s c = OPEN) xs"
      using fresh by (intro filter_cong) (auto simp: client_close_def)
    have states: "(\<lambda>c. if c \<in> set xs \<and> readyStateOf ?t c = OPEN then CLOSING else readyStateOf ?t c)
        = (\<lambda>c. if c \<in> set (x # xs) \<and> readyStateOf s c = OPEN then CLOSING else readyStateOf s c)"
      using True by (auto simp: client_close_def fun_eq_iff)
    show ?thesis
      using True by (simp add: Cons.IH [OF dist] same states) (simp add: client_close_def emit_def)
  next
    case False
    have states: "(\<lambda>c. if c \<in> set xs \<and> readyStateOf s c = OPEN then CLOSING else readyStateOf s c)
        = (\<lambda>c. if c \<in> set (x # xs) \<and> readyStateOf s c = OPEN then CLOSING else readyStateOf s c)"
      using False by (auto simp: fun_eq_iff)
    show ?thesis
      using False by (simp add: Cons.IH [OF dist] states)
  qed
qed

text \<open>
  The close sequence in its order: the console line, the close of each open member,
  then the close of the listener; it does not exit.
\<close>

lemma closeAllConnections_eq:
  assumes "distinct (clients s)"
  shows "closeAllConnections s =
     Inr (s\<lparr>out := out s @ shutting_down # closes s @ [ServerClose],
            readyStateOf := (\<lambda>c. if c \<in> set (clients s) \<and> readyStateOf s c = OPEN then CLOSING
                                  else readyStateOf s c),
            closeCallbacks := Suc (closeCallbacks s)\<rparr>)"
  unfolding closeAllConnections_def console_log_def
  by (simp add: close_loop [OF assms] wss_close_def closes_def emit_def shutting_down_def
        cong del: if_weak_cong)

lemma onServerClosed_eq:
  "onServerClosed s =
     s\<lparr>out := out s @ [ConsoleLog [Text ''Server has closed.''], ProcessExit 0],
       exitCode := Some 0\<rparr>"
  by (simp add: onServerClosed_def process_exit_def console_log_def emit_def)

lemma run_callbacks_Suc:
  "exitCode s = None \<Longrightarrow>
   run_callbacks (Suc n) s =
     s\<lparr>out := out s @ [ConsoleLog [Text ''Server has closed.''], ProcessExit 0],
       exitCode := Some 0\<rparr>"
  by (cases n) (simp_all add: onServerClosed_eq)

text \<open>
  A listener that cannot bind: the callback writes the error, and the hub, which has
  nothing left to wait for, ends with code 0.
\<close>

lemma failed_bind_ends_with_zero:
  assumes "exitCode s = None" and "listening s = Binding" and "clients s = []"
  shows "exitCode (hub_step s (ServerError err)) = Some 0"
    and "since s (hub_step s (ServerError err)) = [ConsoleError [Text ''Server error:'', ErrorObj err]]"
  using assms
  by (simp_all add: hub_step_def onServerError_def console_error_def end_of_turn_def
        loop_empty_def)

subsection \<open>The peer\<close>

lemma shutdownClient_eq:
  "shutdownClient p =
     p\<lparr>out := out p @ disconnecting
               # (if ws_readyState p = OPEN then [SocketClose ws 1000 ''Client exit''] else [])
               @ [ProcessExit 0],
       exitCode := Some 0,
       ws_readyState := (if ws_readyState p = OPEN then CLOSING else ws_readyState p)\<rparr>"
  by (simp add: shutdownClient_def Let_def process_exit_def ws_close_def console_log_def
        emit_def disconnecting_def)

text \<open>
  The callback of a line: on an open socket the line is sent, otherwise the notice is
  written; it does not throw, and it keeps nothing of the line.
\<close>

lemma onLine_eq:
  "onLine line p =
     Inr (if ws_readyState p = OPEN then emit (SocketSend ws line) p
          else console_log [Text ''Connection is not open. Unable to send message.''] p)"
  by (simp add: onLine_def socket_send_def)

subsection \<open>The command line\<close>

lemma lower_char_lower:
  "97 \<le> (of_char y :: nat) \<Longrightarrow> (of_char y :: nat) \<le> 122 \<Longrightarrow> lower_char y = y"
  by (simp add: lower_char_def Let_def)

lemma lower_char_upper_char:
  assumes "97 \<le> (of_char y :: nat)" and "(of_char y :: nat) \<le> 122"
  shows "lower_char (upper_char y) = y"
proof -
  let ?n = "of_char y :: nat"
  have up: "upper_char y = char_of (?n - 32)"
    using assms by (simp add: upper_char_def Let_def)
  have range: "65 \<le> ?n - 32" "?n - 32 \<le> 90"
    using assms by arith+
  have "(of_char (char_of (?n - 32) :: char) :: nat) = ?n - 32"
    using assms by simp
  then have "lower_char (char_of (?n - 32)) = char_of (?n - 32 + 32)"
    using range by (simp add: lower_char_def Let_def)
  also have "\<dots> = y"
    using assms by simp
  finally show ?thesis
    by (simp add: up)
qed

lemma toLowerCase_variant:
  "capitalization_variant a w \<Longrightarrow> lower_word w \<Longrightarrow> toLowerCase a = w"
  unfolding capitalization_variant_def lower_word_def toLowerCase_def
  by (induction a w rule: list_all2_induct)
     (auto simp: lower_char_lower lower_char_upper_char)

lemma main_Cons:
  "main (a # rest) =
     (if toLowerCase a = ''start'' then HubProc startServer
      else if toLowerCase a = ''connect'' then PeerProc startClient
      else Terminated
             \<lparr>out = [ConsoleError [Text (''Unknown command: '' @ toLowerCase a)],
                     ConsoleError [Text usage], ProcessExit 1],
              exitCode = Some 1\<rparr>)"
  by (simp add: main_def Let_def process_exit_def console_error_def emit_def start_process_def)

lemma toLowerCase_start: "toLowerCase ''start'' = ''start''"
  by (simp add: toLowerCase_def lower_char_def)

lemma toLowerCase_connect: "toLowerCase ''connect'' = ''connect''"
  by (simp add: toLowerCase_def lower_char_def)

section \<open>The claims\<close>

text \<open>
  The start-up of both run modes ends in an exception (line 80 and line 122, by way of
  \<^verbatim>\<open>process.on\<close>), so a process started by this program has ended with code 1
  before any event reaches a callback. The callbacks themselves are functions of the
  variables they find; what is proved about a callback is proved of that function.
\<close>

subsection \<open>C1: the broadcast\<close>

text \<open>
  C1 as stated fails twice. The hub has ended at its start-up: a peer that connects and
  sends \<^verbatim>\<open>hi\<close> is sent nothing. And the message callback sends the text that
  \<^verbatim>\<open>data.toString()\<close> decodes, not the bytes: for the payload FF FE every open
  member is sent EF BF BD EF BF BD.
\<close>

theorem broadcast_counterexample:
  "hub_run startServer [Listening, Connection 1, Message 1 (Buffer ''hi'')] = startServer
   \<and> sent_to 1 (out startServer) = []
   \<and> onMessage (Buffer [CHR 0xFF, CHR 0xFE]) one_open =
       Inr (one_open
              \<lparr>out := [ConsoleLog [Text (''Received: ''
                                       @ [CHR 0xEF, CHR 0xBF, CHR 0xBD, CHR 0xEF, CHR 0xBF, CHR 0xBD])],
                       SocketSend 1 [CHR 0xEF, CHR 0xBF, CHR 0xBD, CHR 0xEF, CHR 0xBF, CHR 0xBD]]\<rparr>)"
proof -
  have "hub_run startServer [Listening, Connection 1, Message 1 (Buffer ''hi'')] = startServer"
    by (rule hub_run_ended) (rule startServer_ended)
  moreover have "sent_to 1 (out startServer) = []"
    by (simp add: startServer_ended not_a_function_def)
  moreover have "onMessage (Buffer [CHR 0xFF, CHR 0xFE]) one_open =
       Inr (one_open
              \<lparr>out := [ConsoleLog [Text (''Received: ''
                                       @ [CHR 0xEF, CHR 0xBF, CHR 0xBD, CHR 0xEF, CHR 0xBF, CHR 0xBD])],
                       SocketSend 1 [CHR 0xEF, CHR 0xBF, CHR 0xBD, CHR 0xEF, CHR 0xBF, CHR 0xBD]]\<rparr>)"
    by (simp add: onMessage_eq toString_ff_fe broadcast_def one_open_def hub_with_def
          del: toString.simps)
  ultimately show ?thesis
    by simp
qed

text \<open>
  C1, amended. The message callback of the hub (lines 56 to 65), whenever it runs,
  sends to each member of \<^verbatim>\<open>wss.clients\<close> that is open, the sender among them, one
  copy of \<^verbatim>\<open>data.toString()\<close>, in the order of the Set, and sends nothing to a
  member that is not open; it does not throw. \<^verbatim>\<open>data.toString()\<close> is the payload
  decoded as UTF-8, each invalid sequence replaced by U+FFFD; it is the payload itself,
  byte for byte, when the payload is well-formed UTF-8, as every text message is.
\<close>

theorem broadcast_sends_decoded_text:
  "onMessage data s =
     Inr (s\<lparr>out := out s @ ConsoleLog [Text (''Received: '' @ toString data)]
                      # broadcast s (toString data)\<rparr>)
   \<and> (distinct (clients s) \<longrightarrow>
        sent_to m (broadcast s (toString data)) =
          (if m \<in> set (clients s) \<and> readyStateOf s m = OPEN then [toString data] else []))
   \<and> (well_formed_utf8 payload \<longrightarrow> toString (Buffer payload) = payload)"
  by (simp add: onMessage_eq sent_to_broadcast toString_well_formed del: toString.simps)

theorem broadcast_sends_decoded_text_witness:
  "distinct (clients one_open_one_closing) \<and> well_formed_utf8 ''hi''
   \<and> toString (Buffer ''hi'') = ''hi''
   \<and> sent_to 1 (broadcast one_open_one_closing ''hi'') = [''hi'']
   \<and> sent_to 2 (broadcast one_open_one_closing ''hi'') = []
   \<and> onMessage (Buffer ''hi'') one_open_one_closing =
       Inr (one_open_one_closing
              \<lparr>out := [ConsoleLog [Text ''Received: hi''], SocketSend 1 ''hi'']\<rparr>)"
proof -
  have d: "distinct (clients one_open_one_closing)"
    by (simp add: one_open_one_closing_def hub_with_def)
  have w: "well_formed_utf8 ''hi''"
    by (simp add: single_def byte_def)
  note inst1 = broadcast_sends_decoded_text [of "Buffer ''hi''" one_open_one_closing 1 "''hi''"]
  note inst2 = broadcast_sends_decoded_text [of "Buffer ''hi''" one_open_one_closing 2 "''hi''"]
  have t: "toString (Buffer ''hi'') = ''hi''"
    by (rule inst1 [THEN conjunct2, THEN conjunct2, THEN mp, OF w])
  have b: "broadcast one_open_one_closing ''hi'' = [SocketSend 1 ''hi'']"
    by (simp add: broadcast_def one_open_one_closing_def hub_with_def)
  have o: "out one_open_one_closing = []"
    by (simp add: one_open_one_closing_def hub_with_def)
  have m: "1 \<in> set (clients one_open_one_closing) \<and> readyStateOf one_open_one_closing 1 = OPEN"
    "\<not> (2 \<in> set (clients one_open_one_closing) \<and> readyStateOf one_open_one_closing 2 = OPEN)"
    by (simp_all add: one_open_one_closing_def hub_with_def)
  have s1: "sent_to 1 (broadcast one_open_one_closing ''hi'') = [''hi'']"
    using inst1 [THEN conjunct2, THEN conjunct1, THEN mp, OF d] m(1)
    by (simp add: t del: toString.simps)
  have s2: "sent_to 2 (broadcast one_open_one_closing ''hi'') = []"
    using inst2 [THEN conjunct2, THEN conjunct1, THEN mp, OF d] m(2)
    by (simp add: t del: toString.simps)
  have r: "onMessage (Buffer ''hi'') one_open_one_closing =
       Inr (one_open_one_closing
              \<lparr>out := [ConsoleLog [Text ''Received: hi''], SocketSend 1 ''hi'']\<rparr>)"
    using inst1 [THEN conjunct1] by (simp add: t b o del: toString.simps)
  show ?thesis
    using d w t s1 s2 r by (intro conjI)
qed

subsection \<open>C2: two shutdown signals\<close>

text \<open>
  C2 as stated says that two signals run the close sequence once and call process exit
  once, and it fails twice. No listener for the signals is installed, and the process
  has ended at its start-up: after two signals the hub has run no close sequence and has
  called no exit, and neither has the peer. And \<^verbatim>\<open>closeAllConnections\<close> has no
  latch: run twice, it logs twice and calls \<^verbatim>\<open>wss.close\<close> twice.
\<close>

theorem two_signals_counterexample:
  "hub_run startServer [Signal SIGINT, Signal SIGINT] = startServer
   \<and> count_list (out startServer) shutting_down = 0
   \<and> count_list (out startServer) (ProcessExit 0) = 0
   \<and> peer_run startClient [PeerSignal SIGINT, PeerSignal SIGINT] = startClient
   \<and> count_list (out startClient) disconnecting = 0
   \<and> count_list (out startClient) (ProcessExit 0) = 0
   \<and> out (ended (closeAllConnections (ended (closeAllConnections one_open)))) =
       [shutting_down, SocketClose 1 1001 ''Server shutting down'', ServerClose,
        shutting_down, ServerClose]"
proof -
  have "hub_run startServer [Signal SIGINT, Signal SIGINT] = startServer"
    by (rule hub_run_ended) (rule startServer_ended)
  moreover have "peer_run startClient [PeerSignal SIGINT, PeerSignal SIGINT] = startClient"
    by (rule peer_run_ended) (rule startClient_ended)
  moreover have "out (ended (closeAllConnections (ended (closeAllConnections one_open)))) =
       [shutting_down, SocketClose 1 1001 ''Server shutting down'', ServerClose,
        shutting_down, ServerClose]"
    by (simp add: closeAllConnections_eq ended_def closes_def one_open_def hub_with_def)
  ultimately show ?thesis
    by (simp add: startServer_ended startClient_ended not_a_function_def shutting_down_def
          disconnecting_def)
qed

text \<open>
  C2, amended. The listeners meant for the signals are \<^verbatim>\<open>closeAllConnections\<close>
  (hub) and \<^verbatim>\<open>shutdownClient\<close> (peer), and neither has a latch.
  \<^verbatim>\<open>closeAllConnections\<close>, each time it runs, logs, requests the close of every
  member that is open at that time and calls \<^verbatim>\<open>wss.close\<close>; run a second time it
  logs again and calls \<^verbatim>\<open>wss.close\<close> again, and requests no second close of a
  member it has asked; it does not exit. The callback of \<^verbatim>\<open>wss.close\<close> logs and calls
  process exit with code 0, and of two such callbacks only the first runs.
  \<^verbatim>\<open>shutdownClient\<close> logs, requests the close when the socket is open, and calls
  process exit with code 0 at once.
\<close>

theorem close_sequence_has_no_latch:
  "(distinct (clients s) \<longrightarrow>
      (let t = ended (closeAllConnections s); u = ended (closeAllConnections t) in
         returned (closeAllConnections s) \<and> returned (closeAllConnections t)
         \<and> since s t = shutting_down # closes s @ [ServerClose]
         \<and> since t u = [shutting_down, ServerClose]
         \<and> exitCode u = exitCode s))
   \<and> (exitCode s = None \<longrightarrow>
        since s (run_callbacks 2 s) = [ConsoleLog [Text ''Server has closed.''], ProcessExit 0]
        \<and> exitCode (run_callbacks 2 s) = Some 0)
   \<and> since p (shutdownClient p) =
        disconnecting
        # (if ws_readyState p = OPEN then [SocketClose ws 1000 ''Client exit''] else [])
        @ [ProcessExit 0]
   \<and> exitCode (shutdownClient p) = Some 0"
proof -
  have hub: "let t = ended (closeAllConnections s); u = ended (closeAllConnections t) in
         returned (closeAllConnections s) \<and> returned (closeAllConnections t)
         \<and> since s t = shutting_down # closes s @ [ServerClose]
         \<and> since t u = [shutting_down, ServerClose]
         \<and> exitCode u = exitCode s" if d: "distinct (clients s)"
  proof -
    define t where "t = s\<lparr>out := out s @ shutting_down # closes s @ [ServerClose],
            readyStateOf := (\<lambda>c. if c \<in> set (clients s) \<and> readyStateOf s c = OPEN then CLOSING
                                  else readyStateOf s c),
            closeCallbacks := Suc (closeCallbacks s)\<rparr>"
    have t: "closeAllConnections s = Inr t"
      unfolding t_def by (rule closeAllConnections_eq [OF d])
    have ft: "out t = out s @ shutting_down # closes s @ [ServerClose]"
      "exitCode t = exitCode s" "clients t = clients s"
      by (simp_all add: t_def)
    have dt: "distinct (clients t)"
      using d ft(3) by simp
    have none: "closes t = []"
      by (simp add: closes_def filter_empty_conv t_def)
    define u where "u = t\<lparr>out := out t @ shutting_down # closes t @ [ServerClose],
            readyStateOf := (\<lambda>c. if c \<in> set (clients t) \<and> readyStateOf t c = OPEN then CLOSING
                                  else readyStateOf t c),
            closeCallbacks := Suc (closeCallbacks t)\<rparr>"
    have u: "closeAllConnections t = Inr u"
      unfolding u_def by (rule closeAllConnections_eq [OF dt])
    have fu: "out u = out t @ [shutting_down, ServerClose]" "exitCode u = exitCode s"
      by (simp_all add: u_def none ft(2))
    have st: "since s t = shutting_down # closes s @ [ServerClose]"
      by (rule since_append) (rule ft(1))
    have su: "since t u = [shutting_down, ServerClose]"
      by (rule since_append) (rule fu(1))
    show ?thesis
      by (simp add: t u ended_def returned_def st su fu(2))
  qed
  have callbacks: "since s (run_callbacks 2 s) = [ConsoleLog [Text ''Server has closed.''], ProcessExit 0]
        \<and> exitCode (run_callbacks 2 s) = Some 0" if "exitCode s = None"
  proof -
    have "run_callbacks (Suc (Suc 0)) s =
        s\<lparr>out := out s @ [ConsoleLog [Text ''Server has closed.''], ProcessExit 0],
          exitCode := Some 0\<rparr>"
      using that by (rule run_callbacks_Suc)
    then show ?thesis
      by (simp add: numeral_2_eq_2)
  qed
  have peer: "since p (shutdownClient p) =
        disconnecting
        # (if ws_readyState p = OPEN then [SocketClose ws 1000 ''Client exit''] else [])
        @ [ProcessExit 0]" "exitCode (shutdownClient p) = Some 0"
    by (simp_all add: shutdownClient_eq)
  show ?thesis
  proof (intro conjI impI)
    assume "distinct (clients s)"
    then show "let t = ended (closeAllConnections s); u = ended (closeAllConnections t) in
         returned (closeAllConnections s) \<and> returned (closeAllConnections t)
         \<and> since s t = shutting_down # closes s @ [ServerClose]
         \<and> since t u = [shutting_down, ServerClose]
         \<and> exitCode u = exitCode s"
      by (rule hub)
  next
    assume "exitCode s = None"
    then show "since s (run_callbacks 2 s) = [ConsoleLog [Text ''Server has closed.''], ProcessExit 0]"
      using callbacks by blast
  next
    assume "exitCode s = None"
    then show "exitCode (run_callbacks 2 s) = Some 0"
      using callbacks by blast
  qed (rule peer)+
qed

theorem close_sequence_has_no_latch_witness:
  "distinct (clients one_open_one_closing) \<and> exitCode one_open_one_closing = None
   \<and> returned (closeAllConnections one_open_one_closing)
   \<and> since one_open_one_closing (ended (closeAllConnections one_open_one_closing)) =
       [shutting_down, SocketClose 1 1001 ''Server shutting down'', ServerClose]
   \<and> since (ended (closeAllConnections one_open_one_closing))
         (ended (closeAllConnections (ended (closeAllConnections one_open_one_closing)))) =
       [shutting_down, ServerClose]
   \<and> since one_open_one_closing (run_callbacks 2 one_open_one_closing) =
       [ConsoleLog [Text ''Server has closed.''], ProcessExit 0]
   \<and> since open_peer (shutdownClient open_peer) =
       [disconnecting, SocketClose ws 1000 ''Client exit'', ProcessExit 0]"
proof -
  have h: "distinct (clients one_open_one_closing)" "exitCode one_open_one_closing = None"
    by (simp_all add: one_open_one_closing_def hub_with_def)
  have c: "closes one_open_one_closing = [SocketClose 1 1001 ''Server shutting down'']"
    by (simp add: closes_def one_open_one_closing_def hub_with_def)
  have p: "ws_readyState open_peer = OPEN"
    by (simp add: open_peer_def peer_with_def)
  show ?thesis
    using h close_sequence_has_no_latch [of one_open_one_closing open_peer]
    by (simp add: c p Let_def)
qed

subsection \<open>C3: the peer cannot connect\<close>

text \<open>
  C3 as stated says that the failed connect is shown to the operator and ends the
  process with code 1, and it fails twice. The peer has ended at its start-up, with code
  1 and with the exception of \<^verbatim>\<open>process.on\<close> as its report: when the connect fails
  nothing is written for it. And the callbacks of the socket do not end the process
  with code 1: a peer whose connect fails runs the error callback, then the close
  callback, and that one exits with code 0.
\<close>

theorem connect_failure_counterexample:
  "peer_run startClient [WsError ''ECONNREFUSED'', WsClose 1006 (Buffer [])] = startClient
   \<and> out startClient = [Connect ws address, not_a_function]
   \<and> exitCode startClient = Some 1
   \<and> exitCode (peer_run connecting_peer [WsError ''ECONNREFUSED'', WsClose 1006 (Buffer [])])
       = Some 0"
proof -
  have "peer_run startClient [WsError ''ECONNREFUSED'', WsClose 1006 (Buffer [])] = startClient"
    by (rule peer_run_ended) (rule startClient_ended)
  moreover have
    "exitCode (peer_run connecting_peer [WsError ''ECONNREFUSED'', WsClose 1006 (Buffer [])])
       = Some 0"
    by (simp add: peer_run_def peer_step_def connecting_peer_def peer_with_def console_error_def
          console_log_def process_exit_def emit_def del: toString.simps)
  ultimately show ?thesis
    by (simp add: startClient_ended)
qed

text \<open>
  C3, amended. The error callback of the peer's socket (lines 118 to 120), whenever it
  runs, shows the error to the operator on the error console and does nothing else: it
  does not call process exit. The close callback (lines 113 to 116) writes the
  disconnect notice and calls process exit with code 0.
\<close>

theorem peer_error_is_logged_and_close_exits_zero:
  "peer_callbacks (WsError err) p =
     Inr (p\<lparr>out := out p @ [ConsoleError [Text ''WebSocket error:'', ErrorObj err]]\<rparr>)
   \<and> peer_callbacks (WsClose code reason) p =
       Inr (p\<lparr>out := out p
                @ [ConsoleLog [Text (''Disconnected from server (code: '' @ show_nat code
                                     @ '', reason: '' @ toString reason @ '')'')],
                   ProcessExit 0],
              exitCode := Some 0, ws_readyState := CLOSED\<rparr>)"
  by (simp add: console_error_def console_log_def process_exit_def emit_def del: toString.simps)

subsection \<open>C4: the hub cannot bind its port\<close>

text \<open>
  C4 as stated says that the failed bind is shown to the operator and ends the process
  with a code that is not 0, and it fails twice. The hub has ended at its start-up, with
  code 1 and with the exception of \<^verbatim>\<open>process.on\<close> as its report: when the bind
  fails nothing is written for it. And the error callback of the server does not exit:
  a hub whose listener cannot bind writes the error and ends with code 0.
\<close>

theorem bind_failure_counterexample:
  "hub_run startServer [ServerError ''EADDRINUSE''] = startServer
   \<and> out startServer = [Listen PORT, not_a_function]
   \<and> exitCode startServer = Some 1
   \<and> exitCode (hub_run binding_hub [ServerError ''EADDRINUSE'']) = Some 0"
proof -
  have "hub_run startServer [ServerError ''EADDRINUSE''] = startServer"
    by (rule hub_run_ended) (rule startServer_ended)
  moreover have "exitCode (hub_run binding_hub [ServerError ''EADDRINUSE'']) = Some 0"
    by (simp add: hub_run_def failed_bind_ends_with_zero binding_hub_def hub_with_def)
  ultimately show ?thesis
    by (simp add: startServer_ended)
qed

text \<open>
  C4, amended. The error callback of the server (lines 76 to 78), whenever it runs,
  shows the error to the operator on the error console and does nothing else: it does
  not call process exit. A hub whose listener could not bind has nothing left to wait
  for after this callback, and ends with code 0.
\<close>

theorem server_error_is_logged_and_ends_with_zero:
  "hub_callbacks (ServerError err) s = Inr (onServerError err s)
   \<and> since s (onServerError err s) = [ConsoleError [Text ''Server error:'', ErrorObj err]]
   \<and> exitCode (onServerError err s) = exitCode s
   \<and> (exitCode s = None \<and> listening s = Binding \<and> clients s = [] \<longrightarrow>
        exitCode (hub_step s (ServerError err)) = Some 0)"
  by (simp add: onServerError_def console_error_def failed_bind_ends_with_zero)

theorem server_error_is_logged_and_ends_with_zero_witness:
  "exitCode binding_hub = None \<and> listening binding_hub = Binding \<and> clients binding_hub = []
   \<and> exitCode (hub_step binding_hub (ServerError ''EADDRINUSE'')) = Some 0
   \<and> since binding_hub (onServerError ''EADDRINUSE'' binding_hub) =
       [ConsoleError [Text ''Server error:'', ErrorObj ''EADDRINUSE'']]"
proof -
  have h: "exitCode binding_hub = None" "listening binding_hub = Binding"
    "clients binding_hub = []"
    by (simp_all add: binding_hub_def hub_with_def)
  show ?thesis
    using h server_error_is_logged_and_ends_with_zero [of "''EADDRINUSE''" binding_hub]
    by simp
qed

subsection \<open>C5: the order of the hub's close sequence\<close>

text \<open>
  C5. The close sequence that the claim describes is what \<^verbatim>\<open>closeAllConnections\<close>
  does, but it is never run: the hub has ended at its start-up, with code 1, and a
  terminate signal sent to it with three peers at its port finds no process. No member
  is asked to close, the listener is not closed, and the exit code is not 0.
\<close>

theorem hub_has_ended_before_any_signal:
  "hub_run startServer
     [Listening, Connection 1, Connection 2, Connection 3, Signal SIGTERM, ServerClosed]
     = startServer
   \<and> out startServer = [Listen PORT, not_a_function]
   \<and> exitCode startServer = Some 1"
proof -
  have "hub_run startServer
     [Listening, Connection 1, Connection 2, Connection 3, Signal SIGTERM, ServerClosed]
     = startServer"
    by (rule hub_run_ended) (rule startServer_ended)
  then show ?thesis
    by (simp add: startServer_ended)
qed

subsection \<open>C6: a send that fails\<close>

text \<open>
  C6. The hub has ended at its start-up: with three peers at its port, a message from
  the first and a broken connection of the second, no member is sent anything, the
  other open members included.
\<close>

theorem hub_has_ended_before_any_send:
  "hub_run startServer
     [Listening, Connection 1, Connection 2, Connection 3, Message 1 (Buffer ''hi''),
      Error 2 ''EPIPE'', Close 2]
     = startServer
   \<and> sent_to 1 (out startServer) = []
   \<and> sent_to 3 (out startServer) = []
   \<and> exitCode startServer = Some 1"
proof -
  have "hub_run startServer
     [Listening, Connection 1, Connection 2, Connection 3, Message 1 (Buffer ''hi''),
      Error 2 ''EPIPE'', Close 2]
     = startServer"
    by (rule hub_run_ended) (rule startServer_ended)
  then show ?thesis
    by (simp add: startServer_ended not_a_function_def)
qed

subsection \<open>C7: the command line\<close>

text \<open>
  C7. Without arguments the program writes the usage to the error console and exits
  with code 1. With \<^verbatim>\<open>start\<close> it runs the hub, with \<^verbatim>\<open>connect\<close> the peer. With
  a first argument that is neither, in any case of the letters, it writes the unknown
  command, then the usage, to the error console and exits with code 1.
\<close>

theorem cli_dispatch:
  "main [] = Terminated \<lparr>out = [ConsoleError [Text usage], ProcessExit 1], exitCode = Some 1\<rparr>
   \<and> main (''start'' # rest) = HubProc startServer
   \<and> main (''connect'' # rest) = PeerProc startClient
   \<and> (toLowerCase a \<noteq> ''start'' \<and> toLowerCase a \<noteq> ''connect'' \<longrightarrow>
        main (a # rest) =
          Terminated
            \<lparr>out = [ConsoleError [Text (''Unknown command: '' @ toLowerCase a)],
                    ConsoleError [Text usage], ProcessExit 1],
             exitCode = Some 1\<rparr>)"
proof -
  have "main [] = Terminated \<lparr>out = [ConsoleError [Text usage], ProcessExit 1], exitCode = Some 1\<rparr>"
    by (simp add: main_def process_exit_def console_error_def emit_def start_process_def)
  moreover have "main (''start'' # rest) = HubProc startServer"
    by (simp add: main_Cons toLowerCase_start)
  moreover have "main (''connect'' # rest) = PeerProc startClient"
    by (simp add: main_Cons toLowerCase_connect)
  ultimately show ?thesis
    by (simp add: main_Cons)
qed

theorem cli_dispatch_witness:
  "toLowerCase ''stop'' \<noteq> ''start'' \<and> toLowerCase ''stop'' \<noteq> ''connect''
   \<and> main [''stop''] =
       Terminated
         \<lparr>out = [ConsoleError [Text ''Unknown command: stop''],
                 ConsoleError [Text ''Usage: broadcast-server <start|connect>''], ProcessExit 1],
          exitCode = Some 1\<rparr>
   \<and> main [] =
       Terminated
         \<lparr>out = [ConsoleError [Text ''Usage: broadcast-server <start|connect>''], ProcessExit 1],
          exitCode = Some 1\<rparr>"
proof -
  have low: "toLowerCase ''stop'' = ''stop''"
    by (simp add: toLowerCase_def lower_char_def)
  show ?thesis
    using cli_dispatch [of "[]" "''stop''"] by (simp add: low usage_def)
qed

subsection \<open>C8: a line typed by the operator\<close>

text \<open>
  C8. The peer has ended at its start-up, before its socket opens: the readline
  interface is never created, and a line typed by the operator is neither sent nor
  answered with the notice.
\<close>

theorem peer_has_ended_before_any_line:
  "peer_run startClient [WsOpen, Line ''hello''] = startClient
   \<and> out startClient = [Connect ws address, not_a_function]
   \<and> exitCode startClient = Some 1"
proof -
  have "peer_run startClient [WsOpen, Line ''hello''] = startClient"
    by (rule peer_run_ended) (rule startClient_ended)
  then show ?thesis
    by (simp add: startClient_ended)
qed

subsection \<open>C9: a message that the peer receives\<close>

text \<open>
  C9 as stated fails twice. The peer has ended at its start-up: a message sent to it is
  not printed. And the message callback prints the text that \<^verbatim>\<open>data.toString()\<close>
  decodes, not the payload as it is: for the payload FF FE it prints \<^verbatim>\<open>> \<close>
  followed by EF BF BD EF BF BD.
\<close>

theorem peer_message_counterexample:
  "peer_run startClient [WsOpen, WsMessage (Buffer ''hello'')] = startClient
   \<and> out startClient = [Connect ws address, not_a_function]
   \<and> peer_callbacks (WsMessage (Buffer [CHR 0xFF, CHR 0xFE])) open_peer =
       Inr (open_peer
              \<lparr>out := [ConsoleLog [Text (''> '' @ [CHR 0xEF, CHR 0xBF, CHR 0xBD,
                                                  CHR 0xEF, CHR 0xBF, CHR 0xBD])]]\<rparr>)"
proof -
  have "peer_run startClient [WsOpen, WsMessage (Buffer ''hello'')] = startClient"
    by (rule peer_run_ended) (rule startClient_ended)
  moreover have "peer_callbacks (WsMessage (Buffer [CHR 0xFF, CHR 0xFE])) open_peer =
       Inr (open_peer
              \<lparr>out := [ConsoleLog [Text (''> '' @ [CHR 0xEF, CHR 0xBF, CHR 0xBD,
                                                  CHR 0xEF, CHR 0xBF, CHR 0xBD])]]\<rparr>)"
    by (simp add: toString_ff_fe console_log_def emit_def open_peer_def peer_with_def
          del: toString.simps)
  ultimately show ?thesis
    by (simp add: startClient_ended)
qed

text \<open>
  C9, amended. The message callback of the peer (lines 108 to 111), whenever it runs,
  writes one line to the console: \<^verbatim>\<open>> \<close> followed by \<^verbatim>\<open>data.toString()\<close>, and
  does nothing else. \<^verbatim>\<open>data.toString()\<close> is the payload decoded as UTF-8, each
  invalid sequence replaced by U+FFFD; it is the payload itself when the payload is
  well-formed UTF-8, as every text message is.
\<close>

theorem peer_prints_decoded_text:
  "peer_callbacks (WsMessage data) p =
     Inr (p\<lparr>out := out p @ [ConsoleLog [Text (''> '' @ toString data)]]\<rparr>)
   \<and> (well_formed_utf8 payload \<longrightarrow> toString (Buffer payload) = payload)"
  by (simp add: console_log_def emit_def toString_well_formed del: toString.simps)

theorem peer_prints_decoded_text_witness:
  "well_formed_utf8 ''hello'' \<and> toString (Buffer ''hello'') = ''hello''
   \<and> peer_callbacks (WsMessage (Buffer ''hello'')) open_peer =
       Inr (open_peer\<lparr>out := [ConsoleLog [Text ''> hello'']]\<rparr>)"
proof -
  note inst = peer_prints_decoded_text [of "Buffer ''hello''" open_peer "''hello''"]
  have w: "well_formed_utf8 ''hello''"
    by (simp add: single_def byte_def)
  have t: "toString (Buffer ''hello'') = ''hello''"
    by (rule inst [THEN conjunct2, THEN mp, OF w])
  have o: "out open_peer = []"
    by (simp add: open_peer_def peer_with_def)
  have r: "peer_callbacks (WsMessage (Buffer ''hello'')) open_peer =
       Inr (open_peer\<lparr>out := [ConsoleLog [Text ''> hello'']]\<rparr>)"
    using inst [THEN conjunct1] by (simp add: t o del: toString.simps peer_callbacks.simps)
  show ?thesis
    using w t r by (intro conjI)
qed

subsection \<open>C10: the command in any case of its letters\<close>

text \<open>
  C10. The first argument is put into lower case before it is compared: every
  capitalization variant of \<^verbatim>\<open>start\<close> runs the hub and every capitalization variant
  of \<^verbatim>\<open>connect\<close> runs the peer.
\<close>

theorem cli_is_case_insensitive:
  "(capitalization_variant a ''start'' \<longrightarrow> main (a # rest) = HubProc startServer)
   \<and> (capitalization_variant a ''connect'' \<longrightarrow> main (a # rest) = PeerProc startClient)"
proof (intro conjI impI)
  assume "capitalization_variant a ''start''"
  then have "toLowerCase a = ''start''"
    by (rule toLowerCase_variant) (simp add: lower_word_def)
  then show "main (a # rest) = HubProc startServer"
    by (simp add: main_Cons)
next
  assume "capitalization_variant a ''connect''"
  then have "toLowerCase a = ''connect''"
    by (rule toLowerCase_variant) (simp add: lower_word_def)
  then show "main (a # rest) = PeerProc startClient"
    by (simp add: main_Cons)
qed

theorem cli_is_case_insensitive_witness:
  "capitalization_variant ''START'' ''start'' \<and> main [''START''] = HubProc startServer
   \<and> capitalization_variant ''Connect'' ''connect'' \<and> main [''Connect''] = PeerProc startClient"
proof -
  have v1: "capitalization_variant ''START'' ''start''"
    by code_simp
  have v2: "capitalization_variant ''Connect'' ''connect''"
    by code_simp
  show ?thesis
    using v1 v2 cli_is_case_insensitive [of "''START''" "[]"]
      cli_is_case_insensitive [of "''Connect''" "[]"]
    by simp
qed

end
